theory Spec2Isabelle
  imports Main "HOL-Library.Sublist"
begin

section \<open>Readiness gating and wake coordination of the Ollama proxy\<close>

text \<open>
  A shallow embedding of \<^verbatim>\<open>ollama-health-checker.js\<close>: the class
  \<^verbatim>\<open>OllamaHealthChecker\<close> with its health probe, its wake invoker, the blocking
  coordinator \<^verbatim>\<open>ensureOllamaReady\<close> and the non-blocking \<^verbatim>\<open>chatMiddleware\<close>.

  The source is asynchronous JavaScript running on one cooperative event loop. Each
  \<^verbatim>\<open>async\<close> function is embedded as the state machine it is: one control point per
  \<^verbatim>\<open>await\<close>, and one step running the code between two consecutive suspension points
  without interruption. What the network answers and what the clock reads are inputs of
  a step; \<^verbatim>\<open>axios\<close> and the TLS check of Node are modelled as far as the source
  depends on them. Console output is not modelled. Polish messages are written
  without diacritics and without the emoji, since the file is ASCII.
\<close>

subsection \<open>Strings and JSON values\<close>

definition startsWith :: "string \<Rightarrow> string \<Rightarrow> bool" where
  \<comment> \<open>\<^verbatim>\<open>s.startsWith(p)\<close>\<close>
  "startsWith s p = prefix p s"

definition includes_str :: "string \<Rightarrow> string \<Rightarrow> bool" where
  \<comment> \<open>\<^verbatim>\<open>s.includes(p)\<close>: \<open>p\<close> occurs in \<open>s\<close> as a contiguous run of characters.\<close>
  "includes_str s p = sublist p s"

text \<open>
  A parsed JSON document. An object is the list of its members in order, with distinct
  keys as \<^verbatim>\<open>JSON.parse\<close> leaves them. Numbers are only ever tested for being
  zero. A JavaScript value that may be \<^verbatim>\<open>undefined\<close> is a \<open>json option\<close>.
\<close>

datatype json =
    JNull
  | JBool bool
  | JNum int
  | JStr string
  | JArr "json list"
  | JObj "(string \<times> json) list"

datatype js_error =
    Error string
  | TypeError string
  | AxiosError "string option" "nat option"

fun truthy :: "json option \<Rightarrow> bool" where
  "truthy None = False"
| "truthy (Some JNull) = False"
| "truthy (Some (JBool b)) = b"
| "truthy (Some (JNum n)) = (n \<noteq> 0)"
| "truthy (Some (JStr s)) = (s \<noteq> [])"
| "truthy (Some (JArr xs)) = True"
| "truthy (Some (JObj kvs)) = True"

fun get_prop :: "json option \<Rightarrow> string \<Rightarrow> js_error + json option" where
  \<comment> \<open>\<^verbatim>\<open>v.k\<close> for the keys \<^verbatim>\<open>stream\<close> and \<^verbatim>\<open>model\<close>, which only
      an object can own; reading a property of \<^verbatim>\<open>undefined\<close> or \<^verbatim>\<open>null\<close> throws.\<close>
  "get_prop None k = Inl (TypeError ''Cannot read properties of undefined'')"
| "get_prop (Some JNull) k = Inl (TypeError ''Cannot read properties of null'')"
| "get_prop (Some (JObj kvs)) k = Inr (map_of kvs k)"
| "get_prop (Some v) k = Inr None"

subsection \<open>The HTTP client and the network\<close>

datatype http_method = GET | POST

record https_agent =
  rejectUnauthorized :: bool
  keepAlive :: bool

text \<open>The arguments of one \<^verbatim>\<open>axios\<close> call; \<open>None\<close> is an option left out.\<close>

record axios_config =
  http_method :: http_method
  url :: string
  data :: "json option"
  timeout :: nat
  headers :: "(string \<times> string) list"
  maxRedirects :: "nat option"
  validateStatus :: "(nat \<Rightarrow> bool) option"
  httpsAgent :: "https_agent option"

text \<open>
  What the far end does with one request. \<open>Reply trusted st\<close>: it answers with status
  \<open>st\<close> and nothing for the client to follow (no \<^verbatim>\<open>Location\<close> header), over a
  connection whose certificate is trust-anchored or not (of no account over plain
  HTTP). \<open>Redirect trusted st location next\<close>: it answers with status \<open>st\<close> and a
  \<^verbatim>\<open>Location\<close> header that resolves to the URL \<open>location\<close>, where the far end
  does \<open>next\<close> with a request. \<open>NoReply code\<close>: the exchange fails with an error code
  such as \<^verbatim>\<open>ECONNREFUSED\<close>, \<^verbatim>\<open>ECONNRESET\<close>, \<^verbatim>\<open>ETIMEDOUT\<close>,
  \<^verbatim>\<open>ECONNABORTED\<close> (the client's timeout) or \<^verbatim>\<open>EPROTO\<close>.
\<close>

datatype server_reply =
    Reply bool nat
  | Redirect bool nat string server_reply
  | NoReply string

fun is_https :: "string \<Rightarrow> bool" where
  \<comment> \<open>The protocol of a URL is \<^verbatim>\<open>https:\<close>; a URL parser reads the scheme in either
      letter case.\<close>
  "is_https (h # t # t' # p # s # c # rest) =
     ((h = CHR ''h'' \<or> h = CHR ''H'') \<and> (t = CHR ''t'' \<or> t = CHR ''T'') \<and>
      (t' = CHR ''t'' \<or> t' = CHR ''T'') \<and> (p = CHR ''p'' \<or> p = CHR ''P'') \<and>
      (s = CHR ''s'' \<or> s = CHR ''S'') \<and> c = CHR '':'')"
| "is_https u = False"

definition verifies_certificate :: "axios_config \<Rightarrow> bool" where
  \<comment> \<open>Node verifies the peer unless an agent says \<^verbatim>\<open>rejectUnauthorized: false\<close>.\<close>
  "verifies_certificate cfg =
     (case httpsAgent cfg of None \<Rightarrow> True | Some a \<Rightarrow> rejectUnauthorized a)"

definition cert_rejected :: "axios_config \<Rightarrow> string \<Rightarrow> bool \<Rightarrow> bool" where
  \<comment> \<open>The TLS handshake with the far end of URL \<open>u\<close> fails on its certificate.\<close>
  "cert_rejected cfg u trusted = (is_https u \<and> \<not> trusted \<and> verifies_certificate cfg)"

definition status_accepted :: "axios_config \<Rightarrow> nat \<Rightarrow> bool" where
  \<comment> \<open>The default of axios accepts the statuses from 200 to 299.\<close>
  "status_accepted cfg st =
     (case validateStatus cfg of
        None \<Rightarrow> 200 \<le> st \<and> st < 300
      | Some f \<Rightarrow> f st)"

definition bad_status_code :: "nat \<Rightarrow> string option" where
  "bad_status_code st =
     (if 400 \<le> st \<and> st < 500 then Some ''ERR_BAD_REQUEST''
      else if 500 \<le> st \<and> st < 600 then Some ''ERR_BAD_RESPONSE''
      else None)"

definition settle_status :: "axios_config \<Rightarrow> nat \<Rightarrow> js_error + nat" where
  \<comment> \<open>The response that ends the exchange goes through \<^verbatim>\<open>validateStatus\<close>.\<close>
  "settle_status cfg st =
     (if status_accepted cfg st then Inr st
      else Inl (AxiosError (bad_status_code st) (Some st)))"

definition follows_redirects :: "axios_config \<Rightarrow> bool" where
  \<comment> \<open>Only \<^verbatim>\<open>maxRedirects: 0\<close> turns the following of redirects off.\<close>
  "follows_redirects cfg = (maxRedirects cfg \<noteq> Some 0)"

definition redirect_limit :: "axios_config \<Rightarrow> nat" where
  \<comment> \<open>With \<^verbatim>\<open>maxRedirects\<close> left out the limit is the one of the redirect-following
      transport, 21.\<close>
  "redirect_limit cfg = (case maxRedirects cfg of None \<Rightarrow> 21 | Some n \<Rightarrow> n)"

definition next_method :: "http_method \<Rightarrow> nat \<Rightarrow> http_method" where
  \<comment> \<open>A POST redirected with 301, 302 or 303 goes on as a GET.\<close>
  "next_method m st = (if m = POST \<and> (st = 301 \<or> st = 302 \<or> st = 303) then GET else m)"

text \<open>
  One axios call on the wire: the request with method \<open>m\<close> to URL \<open>u\<close>, after \<open>k\<close>
  redirects already followed. A response with a status from 300 to 399 and a
  \<^verbatim>\<open>Location\<close> is followed with a further request, unless the limit is used up; the
  response that ends the exchange is the one \<^verbatim>\<open>validateStatus\<close> sees. The result is
  how the promise settles, and the requests sent, in order.
\<close>

fun exchange ::
  "axios_config \<Rightarrow> nat \<Rightarrow> http_method \<Rightarrow> string \<Rightarrow> server_reply \<Rightarrow>
     (js_error + nat) \<times> (http_method \<times> string) list" where
  "exchange cfg k m u (NoReply code) = (Inl (AxiosError (Some code) None), [(m, u)])"
| "exchange cfg k m u (Reply trusted st) =
     (if cert_rejected cfg u trusted
      then (Inl (AxiosError (Some ''DEPTH_ZERO_SELF_SIGNED_CERT'') None), [(m, u)])
      else (settle_status cfg st, [(m, u)]))"
| "exchange cfg k m u (Redirect trusted st location next) =
     (if cert_rejected cfg u trusted
      then (Inl (AxiosError (Some ''DEPTH_ZERO_SELF_SIGNED_CERT'') None), [(m, u)])
      else if follows_redirects cfg \<and> 300 \<le> st \<and> st < 400 then
        (if redirect_limit cfg \<le> k
         then (Inl (AxiosError (Some ''ERR_FR_TOO_MANY_REDIRECTS'') None), [(m, u)])
         else (case exchange cfg (Suc k) (next_method m st) location next of
                 (result, requests) \<Rightarrow> (result, (m, u) # requests)))
      else (settle_status cfg st, [(m, u)]))"

definition axios :: "axios_config \<Rightarrow> server_reply \<Rightarrow> js_error + nat" where
  \<comment> \<open>How the promise of an axios call settles: \<open>Inr\<close> the status of the response it
      resolves with, \<open>Inl\<close> the error it rejects with.\<close>
  "axios cfg r = fst (exchange cfg 0 (http_method cfg) (url cfg) r)"

definition wire_requests :: "axios_config \<Rightarrow> server_reply \<Rightarrow> (http_method \<times> string) list" where
  \<comment> \<open>The HTTP requests one axios call sends.\<close>
  "wire_requests cfg r = snd (exchange cfg 0 (http_method cfg) (url cfg) r)"

subsection \<open>The checker\<close>

record OllamaHealthChecker =
  ollamaUrl :: string
  wakeUrl :: string
  wakeApiKey :: string
  wakeDelay :: int
  isWaking :: bool

definition new_OllamaHealthChecker ::
  "string \<Rightarrow> string \<Rightarrow> string \<Rightarrow> int option \<Rightarrow> OllamaHealthChecker" where
  \<comment> \<open>The constructor; \<open>None\<close> is the argument \<^verbatim>\<open>wakeDelay\<close> left out.\<close>
  "new_OllamaHealthChecker ollamaUrl' wakeUrl' wakeApiKey' wakeDelay' =
     \<lparr> ollamaUrl = ollamaUrl',
       wakeUrl = wakeUrl',
       wakeApiKey = wakeApiKey',
       wakeDelay = (case wakeDelay' of None \<Rightarrow> 10 | Some d \<Rightarrow> d) * 1000,
       isWaking = False \<rparr>"

text \<open>
  An \<^verbatim>\<open>async\<close> function with a single \<^verbatim>\<open>await\<close> on a single request: the request it
  issues when called, and what the call evaluates to once the request has settled
  (\<open>Inl\<close> if it throws).
\<close>

type_synonym 'a async_call = "axios_config \<times> (server_reply \<Rightarrow> js_error + 'a)"

definition issued :: "'a async_call \<Rightarrow> axios_config" where
  "issued call = fst call"

definition settled :: "'a async_call \<Rightarrow> server_reply \<Rightarrow> js_error + 'a" where
  "settled call r = snd call r"

definition checkOllamaHealth_request :: "OllamaHealthChecker \<Rightarrow> axios_config" where
  "checkOllamaHealth_request c =
     \<lparr> http_method = GET,
       url = ollamaUrl c @ ''/api/tags'',
       data = None,
       timeout = 10000,
       headers = [(''Connection'', ''close''),
                  (''User-Agent'', ''AI-Proxy-Health-Check/1.0''),
                  (''Accept'', ''application/json'')],
       maxRedirects = Some 3,
       validateStatus = Some (\<lambda>status. status = 200),
       httpsAgent =
         (if startsWith (ollamaUrl c) ''https://''
          then Some \<lparr> rejectUnauthorized = False, keepAlive = False \<rparr>
          else None) \<rparr>"

definition checkOllamaHealth :: "OllamaHealthChecker \<Rightarrow> bool async_call" where
  "checkOllamaHealth c =
     (checkOllamaHealth_request c,
      \<lambda>r. case axios (checkOllamaHealth_request c) r of
             Inr status \<Rightarrow> Inr (status = 200)
           | Inl error \<Rightarrow> Inr False)"

definition wakeComputer_request :: "OllamaHealthChecker \<Rightarrow> axios_config" where
  "wakeComputer_request c =
     \<lparr> http_method = POST,
       url = wakeUrl c,
       data = Some (JObj []),
       timeout = 10000,
       headers = [(''X-API-Key'', wakeApiKey c),
                  (''Content-Type'', ''application/json'')],
       maxRedirects = None,
       validateStatus = None,
       httpsAgent = None \<rparr>"

definition wakeComputer :: "OllamaHealthChecker \<Rightarrow> bool async_call" where
  "wakeComputer c =
     (wakeComputer_request c,
      \<lambda>r. case axios (wakeComputer_request c) r of
             Inr status \<Rightarrow> if status = 200 then Inr True else Inr False
           | Inl error \<Rightarrow> Inr False)"

subsection \<open>The blocking coordinator\<close>

text \<open>
  What a step leaves behind for the outside world, in order: a request handed to axios,
  or a timer started with its delay in milliseconds.
\<close>

datatype effect =
    Http axios_config
  | SetTimeout int

text \<open>What the environment shows at the moment a step runs.\<close>

record world =
  backend :: server_reply
  waker :: server_reply
  now :: string

text \<open>
  The control points of one call of \<^verbatim>\<open>ensureOllamaReady\<close>: just called, and then
  suspended in the timer of the polling loop, in the first probe, in the wake call, in
  the boot delay, in the second probe; or finished, by \<^verbatim>\<open>return\<close> or by \<^verbatim>\<open>throw\<close>.
\<close>

datatype ensure_pc =
    E_called
  | E_polling
  | E_health
  | E_wake
  | E_delay
  | E_health_after_wake
  | E_returned bool
  | E_thrown js_error

definition wake_failed_message :: string where
  "wake_failed_message = ''Nie udalo sie uruchomic komputera''"

definition still_unhealthy_message :: string where
  "still_unhealthy_message = ''Ollama nadal nie jest dostepna po uruchomieniu komputera''"

definition poll_then_probe ::
  "OllamaHealthChecker \<Rightarrow> OllamaHealthChecker \<times> ensure_pc \<times> effect list" where
  \<comment> \<open>The test of \<^verbatim>\<open>this.isWaking\<close> at the head of the function and of its loop,
      up to the next \<^verbatim>\<open>await\<close>: the one-second timer, or the first probe.\<close>
  "poll_then_probe c =
     (if isWaking c then (c, E_polling, [SetTimeout 1000])
      else (c, E_health, [Http (issued (checkOllamaHealth c))]))"

definition catch_rethrow ::
  "OllamaHealthChecker \<Rightarrow> js_error \<Rightarrow> OllamaHealthChecker \<times> ensure_pc \<times> effect list" where
  \<comment> \<open>\<^verbatim>\<open>catch (error) { this.isWaking = false; throw error; }\<close>\<close>
  "catch_rethrow c error = (c\<lparr>isWaking := False\<rparr>, E_thrown error, [])"

fun ensureOllamaReady ::
  "OllamaHealthChecker \<Rightarrow> ensure_pc \<Rightarrow> world \<Rightarrow>
     OllamaHealthChecker \<times> ensure_pc \<times> effect list" where
  "ensureOllamaReady c E_called w = poll_then_probe c"
| "ensureOllamaReady c E_polling w = poll_then_probe c"
| "ensureOllamaReady c E_health w =
     (case settled (checkOllamaHealth c) (backend w) of
        Inl error \<Rightarrow> (c, E_thrown error, [])
      | Inr isHealthy \<Rightarrow>
          if isHealthy then (c, E_returned True, [])
          else (let c' = c\<lparr>isWaking := True\<rparr>
                in (c', E_wake, [Http (issued (wakeComputer c'))])))"
| "ensureOllamaReady c E_wake w =
     (case settled (wakeComputer c) (waker w) of
        Inl error \<Rightarrow> catch_rethrow c error
      | Inr wakeResult \<Rightarrow>
          if \<not> wakeResult
          then catch_rethrow (c\<lparr>isWaking := False\<rparr>) (Error wake_failed_message)
          else (c, E_delay, [SetTimeout (wakeDelay c)]))"
| "ensureOllamaReady c E_delay w =
     (c, E_health_after_wake, [Http (issued (checkOllamaHealth c))])"
| "ensureOllamaReady c E_health_after_wake w =
     (case settled (checkOllamaHealth c) (backend w) of
        Inl error \<Rightarrow> catch_rethrow c error
      | Inr isHealthyAfterWake \<Rightarrow>
          (let c' = c\<lparr>isWaking := False\<rparr>
           in if isHealthyAfterWake then (c', E_returned True, [])
              else catch_rethrow c' (Error still_unhealthy_message)))"
| "ensureOllamaReady c (E_returned v) w = (c, E_returned v, [])"
| "ensureOllamaReady c (E_thrown error) w = (c, E_thrown error, [])"

fun finished :: "ensure_pc \<Rightarrow> bool" where
  "finished (E_returned v) = True"
| "finished (E_thrown error) = True"
| "finished pc = False"

text \<open>
  One call running with no other call in flight: every step of the loop is a step of
  this call, each with what the environment shows at that moment.
\<close>

fun ensure_alone ::
  "OllamaHealthChecker \<Rightarrow> ensure_pc \<Rightarrow> effect list \<Rightarrow> world list \<Rightarrow>
     OllamaHealthChecker \<times> ensure_pc \<times> effect list" where
  "ensure_alone c pc tr [] = (c, pc, tr)"
| "ensure_alone c pc tr (w # ws) =
     (case ensureOllamaReady c pc w of
        (c', pc', effects) \<Rightarrow> ensure_alone c' pc' (tr @ effects) ws)"

subsection \<open>The non-blocking middleware\<close>

record request =
  path :: string
  body :: "json option"

datatype payload =
    Json json
  | Chunks "json list"

text \<open>
  A response as sent: \<open>Json\<close> is the argument of \<^verbatim>\<open>res.json\<close>, \<open>Chunks\<close> are the
  lines given to \<^verbatim>\<open>res.write\<close> between \<^verbatim>\<open>res.writeHead\<close> and \<^verbatim>\<open>res.end\<close>, each
  as the value whose \<^verbatim>\<open>JSON.stringify\<close> was written. \<open>res_headers\<close> are the
  headers the source sets itself.
\<close>

record response =
  statusCode :: nat
  res_headers :: "(string \<times> string) list"
  payload :: payload

datatype outcome =
    Next
  | Responded response

definition waking_message :: string where
  "waking_message =
     ''Czesc! Trwa uruchomienie serwera z Ollama. Wyslij ponowne zapytanie za okolo 20 sekund.''"

definition isStreaming :: "json option \<Rightarrow> bool" where
  \<comment> \<open>\<^verbatim>\<open>requestBody && requestBody.stream === true\<close>\<close>
  "isStreaming requestBody =
     (truthy requestBody \<and>
      (case get_prop requestBody ''stream'' of
         Inl error \<Rightarrow> False
       | Inr v \<Rightarrow> v = Some (JBool True)))"

definition model_or_unknown :: "json option \<Rightarrow> js_error + json" where
  \<comment> \<open>\<^verbatim>\<open>requestBody.model || "unknown"\<close>\<close>
  "model_or_unknown requestBody =
     (case get_prop requestBody ''model'' of
        Inl error \<Rightarrow> Inl error
      | Inr None \<Rightarrow> Inr (JStr ''unknown'')
      | Inr (Some m) \<Rightarrow> Inr (if truthy (Some m) then m else JStr ''unknown''))"

definition generate_chunk :: "json \<Rightarrow> string \<Rightarrow> json" where
  "generate_chunk model created =
     JObj [(''model'', model),
           (''created_at'', JStr created),
           (''response'', JStr waking_message),
           (''done'', JBool True)]"

definition chat_chunk :: "json \<Rightarrow> string \<Rightarrow> json" where
  "chat_chunk model created =
     JObj [(''model'', model),
           (''created_at'', JStr created),
           (''message'', JObj [(''role'', JStr ''assistant''),
                               (''content'', JStr waking_message)]),
           (''done'', JBool True)]"

definition generate_body :: "json \<Rightarrow> string \<Rightarrow> json" where
  "generate_body model created =
     JObj [(''model'', model),
           (''created_at'', JStr created),
           (''response'', JStr waking_message),
           (''done'', JBool True),
           (''context'', JArr []),
           (''total_duration'', JNum 1000000),
           (''load_duration'', JNum 1000000),
           (''prompt_eval_count'', JNum 0),
           (''prompt_eval_duration'', JNum 0),
           (''eval_count'', JNum 1),
           (''eval_duration'', JNum 1000000)]"

definition chat_body :: "json \<Rightarrow> string \<Rightarrow> json" where
  "chat_body model created =
     JObj [(''model'', model),
           (''created_at'', JStr created),
           (''message'', JObj [(''role'', JStr ''assistant''),
                               (''content'', JStr waking_message)]),
           (''done'', JBool True),
           (''total_duration'', JNum 1000000),
           (''load_duration'', JNum 1000000),
           (''prompt_eval_count'', JNum 0),
           (''prompt_eval_duration'', JNum 0),
           (''eval_count'', JNum 1),
           (''eval_duration'', JNum 1000000)]"

definition waking_up_body :: "string \<Rightarrow> json" where
  "waking_up_body created =
     JObj [(''message'', JStr ''Czesc! Trwa uruchomienie serwera z Ollama.''),
           (''instruction'', JStr ''Wyslij ponowne zapytanie za okolo 20 sekund.''),
           (''status'', JStr ''waking_up''),
           (''estimated_wait'', JStr ''20 sekund''),
           (''timestamp'', JStr created)]"

definition stream_head :: "json list \<Rightarrow> response" where
  \<comment> \<open>\<^verbatim>\<open>res.writeHead(200, ...)\<close>, the lines written, \<^verbatim>\<open>res.end()\<close>\<close>
  "stream_head lines =
     \<lparr> statusCode = 200,
       res_headers = [(''Content-Type'', ''application/x-ndjson''),
                      (''Cache-Control'', ''no-cache''),
                      (''Connection'', ''keep-alive'')],
       payload = Chunks lines \<rparr>"

definition res_json :: "nat \<Rightarrow> json \<Rightarrow> response" where
  \<comment> \<open>\<^verbatim>\<open>res.status(st).json(v)\<close>; \<^verbatim>\<open>res.json(v)\<close> is \<open>res_json 200 v\<close>.\<close>
  "res_json st v = \<lparr> statusCode = st, res_headers = [], payload = Json v \<rparr>"

definition stub_response :: "request \<Rightarrow> string \<Rightarrow> js_error + response" where
  \<comment> \<open>The part of the handler after the wake call has been fired, inside its
      \<^verbatim>\<open>try\<close>: \<open>Inl\<close> is an exception on its way to the \<^verbatim>\<open>catch\<close>. In the streaming
      branch the body is an object, so reading its model cannot throw.\<close>
  "stub_response req created =
     (let requestBody = body req;
          isGenerateEndpoint = includes_str (path req) ''/generate'';
          isChatEndpoint = includes_str (path req) ''/chat''
      in if isStreaming requestBody then
           (if isGenerateEndpoint then
              (case model_or_unknown requestBody of
                 Inl error \<Rightarrow> Inl error
               | Inr model \<Rightarrow> Inr (stream_head [generate_chunk model created]))
            else if isChatEndpoint then
              (case model_or_unknown requestBody of
                 Inl error \<Rightarrow> Inl error
               | Inr model \<Rightarrow> Inr (stream_head [chat_chunk model created]))
            else Inr (stream_head []))
         else
           (if isGenerateEndpoint then
              (case model_or_unknown requestBody of
                 Inl error \<Rightarrow> Inl error
               | Inr model \<Rightarrow> Inr (res_json 200 (generate_body model created)))
            else if isChatEndpoint then
              (case model_or_unknown requestBody of
                 Inl error \<Rightarrow> Inl error
               | Inr model \<Rightarrow> Inr (res_json 200 (chat_body model created)))
            else Inr (res_json 503 (waking_up_body created))))"

fun error_message :: "js_error \<Rightarrow> string" where
  \<comment> \<open>\<^verbatim>\<open>error.message\<close>; the wording axios gives its own errors is not modelled.\<close>
  "error_message (Error m) = m"
| "error_message (TypeError m) = m"
| "error_message (AxiosError code st) = ''Request failed''"

definition error_response :: "js_error \<Rightarrow> string \<Rightarrow> response" where
  \<comment> \<open>The \<^verbatim>\<open>catch\<close> of the handler.\<close>
  "error_response error created =
     res_json 503
       (JObj [(''message'', JStr ''Czesc! Wystapil problem z uruchomieniem komputera.''),
              (''instruction'', JStr ''Sprobuj ponownie za chwile.''),
              (''error'', JStr (error_message error)),
              (''status'', JStr ''error''),
              (''timestamp'', JStr created)])"

text \<open>
  The control points of one request in the handler that \<^verbatim>\<open>chatMiddleware\<close> returns:
  just called; suspended in the probe; answered, with the wake call it fired still
  pending in the background; and answered with nothing pending.
\<close>

datatype chat_pc =
    C_called
  | C_health
  | C_background outcome
  | C_done outcome

fun chatMiddleware ::
  "OllamaHealthChecker \<Rightarrow> request \<Rightarrow> chat_pc \<Rightarrow> world \<Rightarrow> chat_pc \<times> effect list" where
  "chatMiddleware c req C_called w = (C_health, [Http (issued (checkOllamaHealth c))])"
| "chatMiddleware c req C_health w =
     (case settled (checkOllamaHealth c) (backend w) of
        Inl error \<Rightarrow> (C_done (Responded (error_response error (now w))), [])
      | Inr isHealthy \<Rightarrow>
          if isHealthy then (C_done Next, [])
          else (C_background
                  (Responded
                     (case stub_response req (now w) of
                        Inl error \<Rightarrow> error_response error (now w)
                      | Inr res \<Rightarrow> res)),
                [Http (issued (wakeComputer c))]))"
| "chatMiddleware c req (C_background out) w =
     (case settled (wakeComputer c) (waker w) of
        Inl error \<Rightarrow> (C_done out, [])
      | Inr wakeResult \<Rightarrow> (C_done out, []))"
| "chatMiddleware c req (C_done out) w = (C_done out, [])"

fun answer :: "chat_pc \<Rightarrow> outcome option" where
  "answer C_called = None"
| "answer C_health = None"
| "answer (C_background out) = Some out"
| "answer (C_done out) = Some out"

subsection \<open>Calls in flight together\<close>

text \<open>
  The event loop runs one step of one call at a time. A system is the checker they
  share, the calls in flight and the effects so far; an event names the call that runs
  next and what the environment shows it.
\<close>

datatype task =
    Ensure ensure_pc
  | Chat request chat_pc

record system =
  checker :: OllamaHealthChecker
  tasks :: "task list"
  trace :: "effect list"

fun step :: "nat \<times> world \<Rightarrow> system \<Rightarrow> system" where
  "step (i, w) s =
     (if i < length (tasks s) then
        (case tasks s ! i of
           Ensure pc \<Rightarrow>
             (case ensureOllamaReady (checker s) pc w of
                (c', pc', effects) \<Rightarrow>
                  s\<lparr> checker := c',
                     tasks := (tasks s)[i := Ensure pc'],
                     trace := trace s @ effects \<rparr>)
         | Chat req pc \<Rightarrow>
             (case chatMiddleware (checker s) req pc w of
                (pc', effects) \<Rightarrow>
                  s\<lparr> tasks := (tasks s)[i := Chat req pc'],
                     trace := trace s @ effects \<rparr>))
      else s)"

fun run :: "(nat \<times> world) list \<Rightarrow> system \<Rightarrow> system" where
  "run [] s = s"
| "run (e # es) s = run es (step e s)"

fun is_wake_call :: "effect \<Rightarrow> bool" where
  "is_wake_call (Http cfg) = (http_method cfg = POST)"
| "is_wake_call (SetTimeout ms) = False"

definition wake_calls :: "effect list \<Rightarrow> nat" where
  "wake_calls tr = length (filter is_wake_call tr)"

subsection \<open>Reading results\<close>

fun response_of :: "chat_pc \<Rightarrow> response option" where
  "response_of pc = (case answer pc of Some (Responded res) \<Rightarrow> Some res | _ \<Rightarrow> None)"

definition answers :: "system \<Rightarrow> outcome option list" where
  "answers s = map (\<lambda>t. case t of Ensure pc \<Rightarrow> None | Chat req pc \<Rightarrow> answer pc) (tasks s)"

subsection \<open>Scenarios\<close>

definition c0 :: OllamaHealthChecker where
  \<comment> \<open>A checker as the server builds it, the wake delay left at its default.\<close>
  "c0 = new_OllamaHealthChecker ''https://ollama.local'' ''https://waker.local/wake''
          ''secret'' None"

definition backend_down :: world where
  "backend_down =
     \<lparr> backend = NoReply ''ECONNREFUSED'',
       waker = Reply True 200,
       now = ''2025-01-01T00:00:00.000Z'' \<rparr>"

definition wake_unauthorized :: world where
  "wake_unauthorized =
     \<lparr> backend = NoReply ''ECONNREFUSED'',
       waker = Reply True 401,
       now = ''2025-01-01T00:00:00.000Z'' \<rparr>"

definition backend_up :: world where
  "backend_up =
     \<lparr> backend = Reply True 200,
       waker = Reply True 200,
       now = ''2025-01-01T00:00:20.000Z'' \<rparr>"

definition two_callers :: system where
  \<comment> \<open>Two requests reach the blocking middleware before either has run.\<close>
  "two_callers = \<lparr> checker = c0, tasks = [Ensure E_called, Ensure E_called], trace = [] \<rparr>"

definition chat_llama2 :: request where
  "chat_llama2 =
     \<lparr> path = ''/api/chat'',
       body = Some (JObj [(''model'', JStr ''llama2''),
                          (''messages'', JArr [JObj [(''role'', JStr ''user''),
                                                     (''content'', JStr ''Hello'')]]),
                          (''stream'', JBool True)]) \<rparr>"

definition embeddings :: "json \<Rightarrow> request" where
  \<comment> \<open>A request to an endpoint that is neither generate nor chat.\<close>
  "embeddings b = \<lparr> path = ''/api/embeddings'', body = Some b \<rparr>"

subsection \<open>Invariants used in the proofs\<close>

definition flag_ok :: "OllamaHealthChecker \<Rightarrow> ensure_pc \<Rightarrow> bool" where
  \<comment> \<open>Of a call running alone: the flag is clear while it probes for the first time
      and once it has finished.\<close>
  "flag_ok c pc = ((pc = E_health \<or> finished pc) \<longrightarrow> \<not> isWaking c)"

definition chat_stub :: "string \<Rightarrow> outcome" where
  "chat_stub created = Responded (stream_head [chat_chunk (JStr ''llama2'') created])"

definition chat_ok :: "chat_pc \<Rightarrow> bool" where
  "chat_ok pc =
     (case answer pc of None \<Rightarrow> True | Some out \<Rightarrow> \<exists>created. out = chat_stub created)"

definition fired :: "chat_pc \<Rightarrow> nat" where
  \<comment> \<open>The wake calls a request has fired so far.\<close>
  "fired pc = (case answer pc of None \<Rightarrow> 0 | Some out \<Rightarrow> 1)"

fun progress :: "chat_pc \<Rightarrow> nat" where
  \<comment> \<open>How far a request has come: called, probing, answered.\<close>
  "progress C_called = 0"
| "progress C_health = 1"
| "progress (C_background out) = 2"
| "progress (C_done out) = 2"

definition two_chats_inv ::
  "OllamaHealthChecker \<Rightarrow> nat \<Rightarrow> nat \<Rightarrow> nat \<Rightarrow> system \<Rightarrow> bool" where
  \<comment> \<open>Two chat requests after \<open>k0\<close> and \<open>k1\<close> steps of theirs, \<open>n\<close> wake calls
      having been in the trace before them.\<close>
  "two_chats_inv c n k0 k1 s =
     (checker s = c \<and>
      (\<exists>p0 p1. tasks s = [Chat chat_llama2 p0, Chat chat_llama2 p1] \<and>
         chat_ok p0 \<and> chat_ok p1 \<and>
         progress p0 = min 2 k0 \<and> progress p1 = min 2 k1 \<and>
         wake_calls (trace s) = n + fired p0 + fired p1))"

section \<open>Properties\<close>

subsection \<open>Auxiliary facts\<close>

lemma axios_simps:
  "axios cfg (NoReply code) = Inl (AxiosError (Some code) None)"
  "axios cfg (Reply trusted st) =
     (if cert_rejected cfg (url cfg) trusted
      then Inl (AxiosError (Some ''DEPTH_ZERO_SELF_SIGNED_CERT'') None)
      else settle_status cfg st)"
  by (simp_all add: axios_def)

lemma is_https_prefix: "startsWith s ''https://'' \<Longrightarrow> is_https (s @ t)"
  by (auto simp add: startsWith_def prefix_def)

lemma checkOllamaHealth_total: "\<exists>b. settled (checkOllamaHealth c) r = Inr b"
  by (auto simp add: settled_def checkOllamaHealth_def split: sum.split)

lemma wakeComputer_total: "\<exists>b. settled (wakeComputer c) r = Inr b"
  by (auto simp add: settled_def wakeComputer_def split: sum.split)

lemma issued_checkOllamaHealth [simp]:
  "issued (checkOllamaHealth c) = checkOllamaHealth_request c"
  by (simp add: issued_def checkOllamaHealth_def)

lemma issued_wakeComputer [simp]: "issued (wakeComputer c) = wakeComputer_request c"
  by (simp add: issued_def wakeComputer_def)

lemma request_ignores_isWaking [simp]:
  "checkOllamaHealth_request (c\<lparr>isWaking := b\<rparr>) = checkOllamaHealth_request c"
  "wakeComputer_request (c\<lparr>isWaking := b\<rparr>) = wakeComputer_request c"
  by (simp_all add: checkOllamaHealth_request_def wakeComputer_request_def)

lemma settled_ignores_isWaking [simp]:
  "settled (checkOllamaHealth (c\<lparr>isWaking := b\<rparr>)) r = settled (checkOllamaHealth c) r"
  "settled (wakeComputer (c\<lparr>isWaking := b\<rparr>)) r = settled (wakeComputer c) r"
  by (simp_all add: settled_def checkOllamaHealth_def wakeComputer_def)

lemma c0_idle: "\<not> isWaking c0"
  by (simp add: c0_def new_OllamaHealthChecker_def)

lemma c0_https: "startsWith (ollamaUrl c0) ''https://''"
  by (simp add: c0_def new_OllamaHealthChecker_def startsWith_def)

lemma c0_replies:
  "settled (checkOllamaHealth c0) (NoReply code) = Inr False"
  "settled (checkOllamaHealth c0) (Reply True 200) = Inr True"
  "settled (wakeComputer c0) (Reply True 200) = Inr True"
  "settled (wakeComputer c0) (Reply True 401) = Inr False"
  by (simp_all add: settled_def checkOllamaHealth_def wakeComputer_def axios_simps cert_rejected_def settle_status_def
      checkOllamaHealth_request_def wakeComputer_request_def verifies_certificate_def
      status_accepted_def c0_def new_OllamaHealthChecker_def startsWith_def)

lemma worlds [simp]:
  "backend backend_down = NoReply ''ECONNREFUSED''"
  "waker backend_down = Reply True 200"
  "backend wake_unauthorized = NoReply ''ECONNREFUSED''"
  "waker wake_unauthorized = Reply True 401"
  "backend backend_up = Reply True 200"
  "waker backend_up = Reply True 200"
  by (simp_all add: backend_down_def wake_unauthorized_def backend_up_def)

lemma wake_calls_append: "wake_calls (tr @ effs) = wake_calls tr + wake_calls effs"
  by (simp add: wake_calls_def)

lemma request_methods [simp]:
  "http_method (checkOllamaHealth_request c) = GET"
  "http_method (wakeComputer_request c) = POST"
  by (simp_all add: wakeComputer_request_def checkOllamaHealth_request_def)

subsection \<open>The health probe and the wake invoker\<close>

lemma exchange_requests_head: "\<exists>rest. snd (exchange cfg k m u r) = (m, u) # rest"
  by (cases r) (auto split: prod.split)

lemma exchange_requests_bound:
  "length (snd (exchange cfg k m u r)) \<le> Suc (redirect_limit cfg - k)"
proof (induction r arbitrary: k m u)
  case (Reply trusted st)
  then show ?case
    by simp
next
  case (Redirect trusted st location follow_up)
  have "length (snd (exchange cfg (Suc k) (next_method m st) location follow_up))
          \<le> Suc (redirect_limit cfg - Suc k)"
    by (rule Redirect.IH)
  then show ?case
    by (auto split: prod.split)
next
  case (NoReply code)
  then show ?case
    by simp
qed

lemma checkOllamaHealth_requests:
  "\<exists>rest. wire_requests (checkOllamaHealth_request c) r =
            (GET, ollamaUrl c @ ''/api/tags'') # rest \<and> length rest \<le> 3"
proof -
  let ?cfg = "checkOllamaHealth_request c"
  have m: "http_method ?cfg = GET" and u: "url ?cfg = ollamaUrl c @ ''/api/tags''"
    and l: "redirect_limit ?cfg = 3"
    by (simp_all add: checkOllamaHealth_request_def redirect_limit_def)
  obtain rest where rest:
    "snd (exchange ?cfg 0 GET (ollamaUrl c @ ''/api/tags'') r) =
       (GET, ollamaUrl c @ ''/api/tags'') # rest"
    using exchange_requests_head by blast
  have "length (snd (exchange ?cfg 0 GET (ollamaUrl c @ ''/api/tags'') r)) \<le> Suc (3 - 0)"
    using exchange_requests_bound [of ?cfg 0 GET "ollamaUrl c @ ''/api/tags''" r] l by simp
  with rest have "length rest \<le> 3"
    by simp
  with rest m u show ?thesis
    by (simp add: wire_requests_def)
qed

text \<open>
  Claim C4, as stated, fails. The probe passes \<^verbatim>\<open>maxRedirects: 3\<close>. When the liveness
  path answers 302 and the place it points to answers 200, a second GET goes out and
  the backend is healthy: the GET to the liveness path did not return 200, and it was
  not the only GET.
\<close>

theorem checkOllamaHealth_healthy_after_redirect:
  "settled (checkOllamaHealth c0)
     (Redirect True 302 ''https://ollama.local/api/tags/'' (Reply True 200)) = Inr True \<and>
   wire_requests (issued (checkOllamaHealth c0))
     (Redirect True 302 ''https://ollama.local/api/tags/'' (Reply True 200)) =
     [(GET, ''https://ollama.local/api/tags''), (GET, ''https://ollama.local/api/tags/'')]"
  by (simp add: settled_def checkOllamaHealth_def axios_def wire_requests_def issued_def
      checkOllamaHealth_request_def cert_rejected_def settle_status_def status_accepted_def
      follows_redirects_def redirect_limit_def next_method_def
      c0_def new_OllamaHealthChecker_def)

text \<open>
  Claim C4, amended. The probe is one axios GET of the liveness path \<^verbatim>\<open>/api/tags\<close>
  under the backend URL, with at most three redirects followed, and its verdict is
  healthy exactly when that call resolves with status 200. On the wire the call is the
  GET of the liveness path and at most three requests more, one for each redirect
  followed; after a response that is not a redirect, and after a failure of the
  exchange, nothing more is sent, so nothing is retried. A response that ends the
  exchange makes the backend healthy if it is a 200 over a trusted connection, and
  unhealthy if its status is not 200, whatever the connection; every failure of the
  exchange (refused, reset, timed out, TLS) makes it unhealthy. The response a followed
  redirect leads to is judged the same way, and a fourth redirect in a row makes the
  backend unhealthy.
\<close>

theorem checkOllamaHealth_healthy_iff_200:
  "http_method (issued (checkOllamaHealth c)) = GET \<and>
   url (issued (checkOllamaHealth c)) = ollamaUrl c @ ''/api/tags'' \<and>
   maxRedirects (issued (checkOllamaHealth c)) = Some 3 \<and>
   settled (checkOllamaHealth c) r = Inr (axios (issued (checkOllamaHealth c)) r = Inr 200) \<and>
   (\<exists>rest. wire_requests (issued (checkOllamaHealth c)) r =
             (GET, ollamaUrl c @ ''/api/tags'') # rest \<and> length rest \<le> 3) \<and>
   wire_requests (issued (checkOllamaHealth c)) (Reply trusted st) =
     [(GET, ollamaUrl c @ ''/api/tags'')] \<and>
   wire_requests (issued (checkOllamaHealth c)) (NoReply code) =
     [(GET, ollamaUrl c @ ''/api/tags'')] \<and>
   settled (checkOllamaHealth c) (Reply True 200) = Inr True \<and>
   (st \<noteq> 200 \<longrightarrow> settled (checkOllamaHealth c) (Reply trusted st) = Inr False) \<and>
   settled (checkOllamaHealth c) (NoReply code) = Inr False \<and>
   (300 \<le> s1 \<and> s1 < 400 \<longrightarrow>
      settled (checkOllamaHealth c) (Redirect True s1 l1 (Reply True st')) =
        Inr (st' = 200)) \<and>
   (300 \<le> s1 \<and> s1 < 400 \<and> 300 \<le> s2 \<and> s2 < 400 \<and> 300 \<le> s3 \<and> s3 < 400 \<and>
    300 \<le> s4 \<and> s4 < 400 \<longrightarrow>
      settled (checkOllamaHealth c)
        (Redirect True s1 l1 (Redirect True s2 l2 (Redirect True s3 l3
           (Redirect True s4 l4 r4)))) = Inr False)"
proof -
  have cfg: "http_method (issued (checkOllamaHealth c)) = GET \<and>
      url (issued (checkOllamaHealth c)) = ollamaUrl c @ ''/api/tags'' \<and>
      maxRedirects (issued (checkOllamaHealth c)) = Some 3"
    by (simp add: checkOllamaHealth_request_def)
  have verdict: "settled (checkOllamaHealth c) r =
      Inr (axios (issued (checkOllamaHealth c)) r = Inr 200)"
    by (auto simp add: settled_def checkOllamaHealth_def issued_def split: sum.split)
  have wire: "\<exists>rest. wire_requests (issued (checkOllamaHealth c)) r =
             (GET, ollamaUrl c @ ''/api/tags'') # rest \<and> length rest \<le> 3"
    using checkOllamaHealth_requests by simp
  have one: "wire_requests (issued (checkOllamaHealth c)) (Reply trusted st) =
       [(GET, ollamaUrl c @ ''/api/tags'')] \<and>
     wire_requests (issued (checkOllamaHealth c)) (NoReply code) =
       [(GET, ollamaUrl c @ ''/api/tags'')]"
    by (simp add: wire_requests_def checkOllamaHealth_request_def)
  have final: "settled (checkOllamaHealth c) (Reply True 200) = Inr True \<and>
     (st \<noteq> 200 \<longrightarrow> settled (checkOllamaHealth c) (Reply trusted st) = Inr False) \<and>
     settled (checkOllamaHealth c) (NoReply code) = Inr False"
    by (simp add: settled_def checkOllamaHealth_def axios_simps cert_rejected_def
        settle_status_def status_accepted_def checkOllamaHealth_request_def)
  have redirect: "300 \<le> s1 \<and> s1 < 400 \<longrightarrow>
      settled (checkOllamaHealth c) (Redirect True s1 l1 (Reply True st')) =
        Inr (st' = 200)"
    by (simp add: settled_def checkOllamaHealth_def axios_def cert_rejected_def
        settle_status_def status_accepted_def checkOllamaHealth_request_def
        follows_redirects_def redirect_limit_def)
  have fourth: "300 \<le> s1 \<and> s1 < 400 \<and> 300 \<le> s2 \<and> s2 < 400 \<and> 300 \<le> s3 \<and> s3 < 400 \<and>
    300 \<le> s4 \<and> s4 < 400 \<longrightarrow>
      settled (checkOllamaHealth c)
        (Redirect True s1 l1 (Redirect True s2 l2 (Redirect True s3 l3
           (Redirect True s4 l4 r4)))) = Inr False"
    by (simp add: settled_def checkOllamaHealth_def axios_def cert_rejected_def
        checkOllamaHealth_request_def follows_redirects_def redirect_limit_def)
  from cfg verdict wire one final redirect fourth show ?thesis
    by blast
qed

theorem checkOllamaHealth_healthy_iff_200_witness:
  "(204::nat) \<noteq> 200 \<and> (300::nat) \<le> 302 \<and> (302::nat) < 400 \<and>
   settled (checkOllamaHealth c0) (Reply True 204) = Inr False \<and>
   settled (checkOllamaHealth c0) (Reply True 200) = Inr True \<and>
   settled (checkOllamaHealth c0) (NoReply ''ETIMEDOUT'') = Inr False \<and>
   settled (checkOllamaHealth c0)
     (Redirect True 302 ''https://ollama.local/api/tags/'' (Reply True 200)) = Inr True \<and>
   settled (checkOllamaHealth c0)
     (Redirect True 302 ''/a'' (Redirect True 302 ''/b'' (Redirect True 302 ''/c''
        (Redirect True 302 ''/d'' (Reply True 200))))) = Inr False \<and>
   wire_requests (issued (checkOllamaHealth c0)) (NoReply ''ETIMEDOUT'') =
     [(GET, ollamaUrl c0 @ ''/api/tags'')]"
  using checkOllamaHealth_healthy_iff_200 [where c = c0 and r = "NoReply ''ETIMEDOUT''"
      and st = 204 and trusted = True and code = "''ETIMEDOUT''"
      and ?s1.0 = 302 and ?s2.0 = 302 and ?s3.0 = 302 and ?s4.0 = 302
      and ?l1.0 = "''https://ollama.local/api/tags/''" and st' = 200]
    checkOllamaHealth_healthy_iff_200 [where c = c0 and r = "NoReply ''ETIMEDOUT''"
      and st = 204 and trusted = True and code = "''ETIMEDOUT''"
      and ?s1.0 = 302 and ?s2.0 = 302 and ?s3.0 = 302 and ?s4.0 = 302
      and ?l1.0 = "''/a''" and ?l2.0 = "''/b''" and ?l3.0 = "''/c''" and ?l4.0 = "''/d''"
      and ?r4.0 = "Reply True 200"]
  by simp



text \<open>
  Claim C2, as stated, fails. The constructor takes the two URLs, the key and the
  delay, and nothing that speaks of certificates; the checker built from an HTTPS
  backend URL and no more than that already sends its probe through an agent with
  \<^verbatim>\<open>rejectUnauthorized: false\<close>, and takes a backend whose certificate is
  not trust-anchored for healthy.
\<close>

theorem checkOllamaHealth_accepts_self_signed_by_default:
  "httpsAgent (issued (checkOllamaHealth
      (new_OllamaHealthChecker ''https://ollama.local'' ''https://waker.local/wake''
         ''secret'' None)))
     = Some \<lparr> rejectUnauthorized = False, keepAlive = False \<rparr> \<and>
   settled (checkOllamaHealth
      (new_OllamaHealthChecker ''https://ollama.local'' ''https://waker.local/wake''
         ''secret'' None))
     (Reply False 200) = Inr True"
  by (simp add: settled_def checkOllamaHealth_def axios_simps cert_rejected_def settle_status_def checkOllamaHealth_request_def
      verifies_certificate_def status_accepted_def issued_def new_OllamaHealthChecker_def
      startsWith_def)

text \<open>
  Claim C2, amended. The probe verifies the backend's certificate exactly when the
  backend URL does not start with \<^verbatim>\<open>https://\<close>: for every HTTPS backend validation is
  off, with no setting to ask for it or to refuse it, and a backend that answers 200
  behind a certificate that is not trust-anchored is healthy.
\<close>

theorem checkOllamaHealth_tls_validation_by_scheme:
  "verifies_certificate (issued (checkOllamaHealth c)) =
     (\<not> startsWith (ollamaUrl c) ''https://'') \<and>
   (startsWith (ollamaUrl c) ''https://'' \<longrightarrow>
      settled (checkOllamaHealth c) (Reply False 200) = Inr True)"
  by (simp add: settled_def checkOllamaHealth_def axios_simps cert_rejected_def settle_status_def checkOllamaHealth_request_def
      verifies_certificate_def status_accepted_def issued_def)

theorem checkOllamaHealth_tls_validation_by_scheme_witness:
  "startsWith (ollamaUrl c0) ''https://'' \<and>
   \<not> verifies_certificate (issued (checkOllamaHealth c0)) \<and>
   settled (checkOllamaHealth c0) (Reply False 200) = Inr True"
  using checkOllamaHealth_tls_validation_by_scheme [of c0] c0_https
  by simp

subsection \<open>The blocking coordinator\<close>

lemma flag_ok_step:
  "flag_ok c pc \<Longrightarrow> ensureOllamaReady c pc w = (c', pc', effs) \<Longrightarrow> flag_ok c' pc'"
  by (cases pc)
     (auto simp add: flag_ok_def poll_then_probe_def catch_rethrow_def Let_def
           split: if_splits sum.splits)

lemma flag_ok_alone:
  "flag_ok c pc \<Longrightarrow> ensure_alone c pc tr ws = (c', pc', tr') \<Longrightarrow> flag_ok c' pc'"
proof (induction ws arbitrary: c pc tr)
  case Nil
  then show ?case by simp
next
  case (Cons w ws)
  obtain c1 pc1 effs where st: "ensureOllamaReady c pc w = (c1, pc1, effs)"
    by (cases "ensureOllamaReady c pc w") auto
  from Cons.prems(1) st have "flag_ok c1 pc1"
    by (rule flag_ok_step)
  moreover from Cons.prems(2) st have "ensure_alone c1 pc1 (tr @ effs) ws = (c', pc', tr')"
    by simp
  ultimately show ?case
    by (rule Cons.IH)
qed

lemma wake_exit_clears:
  assumes "pc = E_wake \<or> pc = E_health_after_wake"
    and "ensureOllamaReady c pc w = (c', pc', effs)"
    and "finished pc'"
  shows "\<not> isWaking c'"
  using assms wakeComputer_total [of c "waker w"] checkOllamaHealth_total [of c "backend w"]
  by (auto simp add: catch_rethrow_def Let_def split: if_splits sum.splits)

lemma alone_finishes:
  assumes "\<not> isWaking c"
  shows "finished (fst (snd (ensure_alone c E_called [] [w1, w2, w3, w4, w5])))"
  using assms checkOllamaHealth_total [of c "backend w2"] wakeComputer_total [of c "waker w3"]
    checkOllamaHealth_total [of c "backend w5"]
  by (auto simp add: poll_then_probe_def catch_rethrow_def Let_def split: if_splits sum.splits)

lemma hot_path_leaves_flag:
  assumes "ensureOllamaReady d E_health w = (c', pc', effs)"
    and "finished pc'"
  shows "c' = d"
  using assms checkOllamaHealth_total [of d "backend w"]
  by (auto simp add: Let_def split: if_splits sum.splits)

lemma no_exit_elsewhere:
  assumes "pc = E_called \<or> pc = E_polling \<or> pc = E_delay"
    and "ensureOllamaReady d pc w = (c', pc', effs)"
  shows "\<not> finished pc'"
  using assms
  by (auto simp add: poll_then_probe_def split: if_splits)

lemma wake_exit_clears_in_system:
  assumes "i < length (tasks s)"
    and "tasks s ! i = Ensure pc"
    and "pc = E_wake \<or> pc = E_health_after_wake"
    and "tasks (step (i, w) s) ! i = Ensure pc'"
    and "finished pc'"
  shows "\<not> isWaking (checker (step (i, w) s))"
proof -
  obtain c1 pc1 effs where st: "ensureOllamaReady (checker s) pc w = (c1, pc1, effs)"
    by (cases "ensureOllamaReady (checker s) pc w") auto
  with assms(1,2) have "checker (step (i, w) s) = c1" "tasks (step (i, w) s) ! i = Ensure pc1"
    by simp_all
  with assms(4,5) st wake_exit_clears [OF assms(3)] show ?thesis
    by auto
qed

text \<open>
  Claim C3, as stated, fails. Two calls are made while the flag is clear. The first
  probe of call 0 fails, so call 0 sets the flag and starts the wake sequence. The probe
  of call 1 then succeeds: call 1 returns \<open>True\<close> on the hot path, which does not
  write the flag, and \<^verbatim>\<open>isWaking\<close> is true immediately after that return.
\<close>

theorem ensureOllamaReady_hot_path_returns_while_waking:
  "tasks (run [(0, backend_down), (1, backend_down), (0, backend_down), (1, backend_up)]
            two_callers) = [Ensure E_wake, Ensure (E_returned True)] \<and>
   isWaking (checker
     (run [(0, backend_down), (1, backend_down), (0, backend_down), (1, backend_up)]
        two_callers))"
  by (simp add: two_callers_def poll_then_probe_def Let_def c0_replies c0_idle)

text \<open>
  Claim C3, amended. Whenever a call of \<^verbatim>\<open>ensureOllamaReady\<close> that runs with no other
  call in flight has returned or thrown, \<^verbatim>\<open>isWaking\<close> is false, whatever the network
  answered on the way; such a call does come to an end when the flag is clear as it is
  made: five steps are enough, whatever the answers. With other calls in flight as
  well, in any state they have left the checker in: every way out of the wake
  sequence, by \<^verbatim>\<open>return\<close> or by \<^verbatim>\<open>throw\<close>, leaves the flag false in the very
  step that ends the call, for the call taken alone and as one of the calls of a
  system; the only other way out is the return on the hot path, after the first probe,
  and it leaves the checker, flag included, as it finds it.
\<close>

theorem ensureOllamaReady_clears_isWaking:
  "(\<forall>c' pc' tr. ensure_alone c E_called [] ws = (c', pc', tr) \<and> finished pc' \<longrightarrow>
      \<not> isWaking c') \<and>
   (\<not> isWaking c \<longrightarrow>
      finished (fst (snd (ensure_alone c E_called [] [w1, w2, w3, w4, w5])))) \<and>
   (\<forall>c' pc' effs.
      (pc = E_wake \<or> pc = E_health_after_wake) \<and>
      ensureOllamaReady d pc w = (c', pc', effs) \<and> finished pc' \<longrightarrow> \<not> isWaking c') \<and>
   (\<forall>c' pc' effs.
      ensureOllamaReady d E_health w = (c', pc', effs) \<and> finished pc' \<longrightarrow> c' = d) \<and>
   (\<forall>q c' pc' effs.
      (q = E_called \<or> q = E_polling \<or> q = E_delay) \<and>
      ensureOllamaReady d q w = (c', pc', effs) \<longrightarrow> \<not> finished pc') \<and>
   (\<forall>q q'.
      i < length (tasks s) \<and> tasks s ! i = Ensure q \<and>
      (q = E_wake \<or> q = E_health_after_wake) \<and>
      tasks (step (i, w) s) ! i = Ensure q' \<and> finished q' \<longrightarrow>
        \<not> isWaking (checker (step (i, w) s)))"
proof -
  have "flag_ok c E_called"
    by (simp add: flag_ok_def)
  then have "\<forall>c' pc' tr. ensure_alone c E_called [] ws = (c', pc', tr) \<and> finished pc' \<longrightarrow>
      \<not> isWaking c'"
    using flag_ok_alone flag_ok_def by blast
  moreover have "\<not> isWaking c \<longrightarrow>
      finished (fst (snd (ensure_alone c E_called [] [w1, w2, w3, w4, w5])))"
    using alone_finishes by blast
  moreover have "\<forall>c' pc' effs.
      (pc = E_wake \<or> pc = E_health_after_wake) \<and>
      ensureOllamaReady d pc w = (c', pc', effs) \<and> finished pc' \<longrightarrow> \<not> isWaking c'"
    using wake_exit_clears by blast
  moreover have "\<forall>c' pc' effs.
      ensureOllamaReady d E_health w = (c', pc', effs) \<and> finished pc' \<longrightarrow> c' = d"
    using hot_path_leaves_flag by blast
  moreover have "\<forall>q c' pc' effs.
      (q = E_called \<or> q = E_polling \<or> q = E_delay) \<and>
      ensureOllamaReady d q w = (c', pc', effs) \<longrightarrow> \<not> finished pc'"
    using no_exit_elsewhere by blast
  moreover have "\<forall>q q'.
      i < length (tasks s) \<and> tasks s ! i = Ensure q \<and>
      (q = E_wake \<or> q = E_health_after_wake) \<and>
      tasks (step (i, w) s) ! i = Ensure q' \<and> finished q' \<longrightarrow>
        \<not> isWaking (checker (step (i, w) s))"
    using wake_exit_clears_in_system by blast
  ultimately show ?thesis
    by blast
qed

theorem ensureOllamaReady_clears_isWaking_witness:
  "ensure_alone c0 E_called [] [backend_down, backend_down, wake_unauthorized] =
     (c0, E_thrown (Error wake_failed_message),
      [Http (checkOllamaHealth_request c0), Http (wakeComputer_request c0)]) \<and>
   finished (E_thrown (Error wake_failed_message)) \<and>
   \<not> isWaking c0 \<and>
   ensureOllamaReady (c0\<lparr>isWaking := True\<rparr>) E_wake wake_unauthorized =
     (c0, E_thrown (Error wake_failed_message), []) \<and>
   ensureOllamaReady (c0\<lparr>isWaking := True\<rparr>) E_health backend_up =
     (c0\<lparr>isWaking := True\<rparr>, E_returned True, []) \<and>
   step (0, wake_unauthorized)
     \<lparr> checker = c0\<lparr>isWaking := True\<rparr>, tasks = [Ensure E_wake], trace = [] \<rparr> =
     \<lparr> checker = c0, tasks = [Ensure (E_thrown (Error wake_failed_message))], trace = [] \<rparr> \<and>
   finished (fst (snd (ensure_alone c0 E_called []
      [backend_down, backend_down, backend_down, backend_down, backend_down])))"
proof -
  have idle: "c0\<lparr>isWaking := False\<rparr> = c0"
    using c0_idle by simp
  have run: "ensure_alone c0 E_called [] [backend_down, backend_down, wake_unauthorized] =
     (c0, E_thrown (Error wake_failed_message),
      [Http (checkOllamaHealth_request c0), Http (wakeComputer_request c0)])"
    by (simp add: poll_then_probe_def catch_rethrow_def Let_def c0_idle c0_replies idle)
  have st: "ensureOllamaReady (c0\<lparr>isWaking := True\<rparr>) E_wake wake_unauthorized =
     (c0, E_thrown (Error wake_failed_message), [])"
    by (simp add: catch_rethrow_def c0_replies idle)
  have hot: "ensureOllamaReady (c0\<lparr>isWaking := True\<rparr>) E_health backend_up =
     (c0\<lparr>isWaking := True\<rparr>, E_returned True, [])"
    by (simp add: c0_replies)
  have sys: "step (0, wake_unauthorized)
     \<lparr> checker = c0\<lparr>isWaking := True\<rparr>, tasks = [Ensure E_wake], trace = [] \<rparr> =
     \<lparr> checker = c0, tasks = [Ensure (E_thrown (Error wake_failed_message))], trace = [] \<rparr>"
    by (simp add: catch_rethrow_def c0_replies idle)
  from run st hot sys c0_idle
    ensureOllamaReady_clears_isWaking [where c = c0
      and ws = "[backend_down, backend_down, wake_unauthorized]"
      and ?w1.0 = backend_down and ?w2.0 = backend_down and ?w3.0 = backend_down
      and ?w4.0 = backend_down and ?w5.0 = backend_down
      and pc = E_wake and d = "c0\<lparr>isWaking := True\<rparr>" and w = wake_unauthorized
      and i = 0
      and s = "\<lparr> checker = c0\<lparr>isWaking := True\<rparr>, tasks = [Ensure E_wake], trace = [] \<rparr>"]
  show ?thesis
    by simp
qed

text \<open>
  Claim C5. A call made with the flag clear whose first probe finds the backend
  unhealthy fires the wake call. If the wake call fails, the call throws its
  wake-failed error with the flag cleared, having started no timer and sent no second
  probe. If it succeeds, the call waits the configured delay and probes once more: it
  returns \<open>True\<close> when that probe is healthy, and otherwise throws the
  still-unhealthy error, a message different from the first; the flag is clear either
  way.
\<close>

theorem ensureOllamaReady_wake_sequence:
  assumes "\<not> isWaking c"
    and "settled (checkOllamaHealth c) (backend w1) = Inr False"
  shows
   "(settled (wakeComputer c) (waker w2) = Inr False \<longrightarrow>
       ensure_alone c E_called [] [w0, w1, w2] =
         (c, E_thrown (Error wake_failed_message),
          [Http (issued (checkOllamaHealth c)), Http (issued (wakeComputer c))])) \<and>
    (settled (wakeComputer c) (waker w2) = Inr True \<longrightarrow>
       ensure_alone c E_called [] [w0, w1, w2, w3, w4] =
         (c,
          (if settled (checkOllamaHealth c) (backend w4) = Inr True then E_returned True
           else E_thrown (Error still_unhealthy_message)),
          [Http (issued (checkOllamaHealth c)), Http (issued (wakeComputer c)),
           SetTimeout (wakeDelay c), Http (issued (checkOllamaHealth c))])) \<and>
    wake_failed_message \<noteq> still_unhealthy_message"
proof -
  from assms(1) have c: "c\<lparr>isWaking := False\<rparr> = c"
    by simp
  obtain h where h: "settled (checkOllamaHealth c) (backend w4) = Inr h"
    using checkOllamaHealth_total by blast
  show ?thesis
    using assms h c
    by (simp add: poll_then_probe_def catch_rethrow_def Let_def
        wake_failed_message_def still_unhealthy_message_def)
qed

theorem ensureOllamaReady_wake_sequence_witness:
  "\<not> isWaking c0 \<and>
   settled (checkOllamaHealth c0) (backend backend_down) = Inr False \<and>
   settled (wakeComputer c0) (waker wake_unauthorized) = Inr False \<and>
   ensure_alone c0 E_called [] [backend_down, backend_down, wake_unauthorized] =
     (c0, E_thrown (Error wake_failed_message),
      [Http (checkOllamaHealth_request c0), Http (wakeComputer_request c0)]) \<and>
   settled (wakeComputer c0) (waker backend_down) = Inr True \<and>
   ensure_alone c0 E_called []
       [backend_down, backend_down, backend_down, backend_down, backend_up] =
     (c0, E_returned True,
      [Http (checkOllamaHealth_request c0), Http (wakeComputer_request c0),
       SetTimeout 10000, Http (checkOllamaHealth_request c0)]) \<and>
   ensure_alone c0 E_called []
       [backend_down, backend_down, backend_down, backend_down, backend_down] =
     (c0, E_thrown (Error still_unhealthy_message),
      [Http (checkOllamaHealth_request c0), Http (wakeComputer_request c0),
       SetTimeout 10000, Http (checkOllamaHealth_request c0)])"
proof -
  have d: "wakeDelay c0 = 10000"
    by (simp add: c0_def new_OllamaHealthChecker_def)
  have h: "settled (checkOllamaHealth c0) (backend backend_down) = Inr False"
    by (simp add: c0_replies)
  from c0_idle d c0_replies
    ensureOllamaReady_wake_sequence [OF c0_idle h, where ?w2.0 = wake_unauthorized
      and ?w0.0 = backend_down and ?w3.0 = backend_down and ?w4.0 = backend_up]
    ensureOllamaReady_wake_sequence [OF c0_idle h, where ?w2.0 = backend_down
      and ?w0.0 = backend_down and ?w3.0 = backend_down and ?w4.0 = backend_up]
    ensureOllamaReady_wake_sequence [OF c0_idle h, where ?w2.0 = backend_down
      and ?w0.0 = backend_down and ?w3.0 = backend_down and ?w4.0 = backend_down]
  show ?thesis
    by simp
qed

text \<open>
  Claim C1, at its failing input. Two calls are made while the flag is clear and the
  backend refuses connections. Each tests the flag, finds it clear and suspends in its
  probe; each probe then fails, and each call in its turn sets the flag and posts to the
  wake URL: two wake calls for one outage. The test of the flag (the head of the
  function) and its setting are on either side of the \<^verbatim>\<open>await\<close> of the probe.
\<close>

theorem ensureOllamaReady_race_two_wake_calls:
  "\<not> isWaking (checker two_callers) \<and>
   tasks (run [(0, backend_down), (1, backend_down), (0, backend_down), (1, backend_down)]
            two_callers) = [Ensure E_wake, Ensure E_wake] \<and>
   wake_calls (trace
      (run [(0, backend_down), (1, backend_down), (0, backend_down), (1, backend_down)]
         two_callers)) = 2"
  by (simp add: two_callers_def poll_then_probe_def Let_def c0_replies wake_calls_def c0_idle
      wakeComputer_request_def checkOllamaHealth_request_def)

subsection \<open>The non-blocking middleware\<close>

lemma model_or_unknown_present:
  assumes "b \<noteq> None" and "b \<noteq> Some JNull"
  shows "\<exists>m. model_or_unknown b = Inr m"
proof (cases b)
  case None
  with assms(1) show ?thesis
    by simp
next
  case (Some v)
  with assms(2) show ?thesis
    by (cases v) (auto simp add: model_or_unknown_def split: option.split)
qed

lemma isStreaming_iff:
  "isStreaming b \<longleftrightarrow> (\<exists>kvs. b = Some (JObj kvs) \<and> map_of kvs ''stream'' = Some (JBool True))"
proof (cases b)
  case None
  then show ?thesis
    by (simp add: isStreaming_def)
next
  case (Some v)
  then show ?thesis
    by (cases v) (auto simp add: isStreaming_def)
qed

lemma isStreaming_model: "isStreaming b \<Longrightarrow> \<exists>m. model_or_unknown b = Inr m"
  by (auto simp add: isStreaming_iff model_or_unknown_def split: option.split)

lemma includes_str_embeddings [simp]:
  "\<not> includes_str ''/api/embeddings'' ''/generate''"
  "\<not> includes_str ''/api/embeddings'' ''/chat''"
  by (simp_all add: includes_str_def sublist_code)

lemma includes_str_chat [simp]:
  "\<not> includes_str ''/api/chat'' ''/generate''"
  "includes_str ''/api/chat'' ''/chat''"
  by (simp_all add: includes_str_def sublist_code)

text \<open>
  Claim C6, as stated, fails. With the backend down, a request that does not ask for
  streaming and whose path holds neither \<^verbatim>\<open>/generate\<close> nor \<^verbatim>\<open>/chat\<close> is answered
  with status 503.
\<close>

theorem chatMiddleware_other_endpoint_503:
  "map_option statusCode
     (response_of (fst (chatMiddleware c0 (embeddings (JObj [(''model'', JStr ''llama2'')]))
        C_health backend_down))) = Some 503"
  by (simp add: c0_replies embeddings_def stub_response_def Let_def isStreaming_def
      res_json_def)

text \<open>
  Claim C6, amended. With the backend down the handler fires the wake call in the step
  that builds the answer, and the answer is fixed there: it is the same whatever the
  wake endpoint does, and when the wake call settles later, in the background, neither
  the answer nor anything else changes. For a request with a body (neither
  \<^verbatim>\<open>undefined\<close> nor \<^verbatim>\<open>null\<close>) whose path holds \<^verbatim>\<open>/generate\<close> or
  \<^verbatim>\<open>/chat\<close> the answer has status 200 and carries the stub of that endpoint: one
  streamed line when streaming is asked for, a JSON body otherwise. A request that does
  not ask for streaming, to any other path, gets status 503 with the waking-up
  envelope.
\<close>

theorem chatMiddleware_stub_when_down:
  assumes "settled (checkOllamaHealth c) (backend w) = Inr False"
  shows "\<exists>res.
     chatMiddleware c req C_health w =
       (C_background (Responded res), [Http (issued (wakeComputer c))]) \<and>
     (\<forall>r. chatMiddleware c req C_health (w\<lparr>waker := r\<rparr>) = chatMiddleware c req C_health w) \<and>
     (\<forall>w'. chatMiddleware c req (C_background (Responded res)) w' =
        (C_done (Responded res), [])) \<and>
     (body req \<noteq> None \<and> body req \<noteq> Some JNull \<and> includes_str (path req) ''/generate'' \<longrightarrow>
        (\<exists>model. model_or_unknown (body req) = Inr model \<and> statusCode res = 200 \<and>
           payload res = (if isStreaming (body req) then Chunks [generate_chunk model (now w)]
                          else Json (generate_body model (now w))))) \<and>
     (body req \<noteq> None \<and> body req \<noteq> Some JNull \<and> \<not> includes_str (path req) ''/generate'' \<and>
      includes_str (path req) ''/chat'' \<longrightarrow>
        (\<exists>model. model_or_unknown (body req) = Inr model \<and> statusCode res = 200 \<and>
           payload res = (if isStreaming (body req) then Chunks [chat_chunk model (now w)]
                          else Json (chat_body model (now w))))) \<and>
     (\<not> isStreaming (body req) \<and> \<not> includes_str (path req) ''/generate'' \<and>
      \<not> includes_str (path req) ''/chat'' \<longrightarrow>
        res = res_json 503 (waking_up_body (now w)))"
proof -
  define res where
    "res = (case stub_response req (now w) of
              Inl error \<Rightarrow> error_response error (now w)
            | Inr res' \<Rightarrow> res')"
  have st: "chatMiddleware c req C_health w =
              (C_background (Responded res), [Http (issued (wakeComputer c))])"
    using assms by (simp add: res_def)
  have ind: "\<forall>r. chatMiddleware c req C_health (w\<lparr>waker := r\<rparr>) =
               chatMiddleware c req C_health w"
    by (simp split: sum.split)
  have bg: "\<forall>w'. chatMiddleware c req (C_background (Responded res)) w' =
              (C_done (Responded res), [])"
    by (simp split: sum.split)
  have gen: "body req \<noteq> None \<and> body req \<noteq> Some JNull \<and>
      includes_str (path req) ''/generate'' \<longrightarrow>
        (\<exists>model. model_or_unknown (body req) = Inr model \<and> statusCode res = 200 \<and>
           payload res = (if isStreaming (body req) then Chunks [generate_chunk model (now w)]
                          else Json (generate_body model (now w))))"
  proof (intro impI, elim conjE)
    assume b: "body req \<noteq> None" "body req \<noteq> Some JNull"
      and p: "includes_str (path req) ''/generate''"
    from b obtain m where "model_or_unknown (body req) = Inr m"
      using model_or_unknown_present by blast
    with p show "\<exists>model. model_or_unknown (body req) = Inr model \<and> statusCode res = 200 \<and>
           payload res = (if isStreaming (body req) then Chunks [generate_chunk model (now w)]
                          else Json (generate_body model (now w)))"
      by (simp add: res_def stub_response_def Let_def stream_head_def res_json_def)
  qed
  have chat: "body req \<noteq> None \<and> body req \<noteq> Some JNull \<and>
      \<not> includes_str (path req) ''/generate'' \<and> includes_str (path req) ''/chat'' \<longrightarrow>
        (\<exists>model. model_or_unknown (body req) = Inr model \<and> statusCode res = 200 \<and>
           payload res = (if isStreaming (body req) then Chunks [chat_chunk model (now w)]
                          else Json (chat_body model (now w))))"
  proof (intro impI, elim conjE)
    assume b: "body req \<noteq> None" "body req \<noteq> Some JNull"
      and p: "\<not> includes_str (path req) ''/generate''" "includes_str (path req) ''/chat''"
    from b obtain m where "model_or_unknown (body req) = Inr m"
      using model_or_unknown_present by blast
    with p show "\<exists>model. model_or_unknown (body req) = Inr model \<and> statusCode res = 200 \<and>
           payload res = (if isStreaming (body req) then Chunks [chat_chunk model (now w)]
                          else Json (chat_body model (now w)))"
      by (simp add: res_def stub_response_def Let_def stream_head_def res_json_def)
  qed
  have other: "\<not> isStreaming (body req) \<and> \<not> includes_str (path req) ''/generate'' \<and>
      \<not> includes_str (path req) ''/chat'' \<longrightarrow> res = res_json 503 (waking_up_body (now w))"
    by (simp add: res_def stub_response_def Let_def)
  from st ind bg gen chat other show ?thesis
    by blast
qed

theorem chatMiddleware_stub_when_down_witness:
  "settled (checkOllamaHealth c0) (backend backend_down) = Inr False \<and>
   body chat_llama2 \<noteq> None \<and> body chat_llama2 \<noteq> Some JNull \<and>
   \<not> includes_str (path chat_llama2) ''/generate'' \<and>
   includes_str (path chat_llama2) ''/chat'' \<and>
   chatMiddleware c0 chat_llama2 C_health backend_down =
     (C_background
        (Responded (stream_head [chat_chunk (JStr ''llama2'') (now backend_down)])),
      [Http (wakeComputer_request c0)]) \<and>
   chatMiddleware c0 chat_llama2
       (C_background
          (Responded (stream_head [chat_chunk (JStr ''llama2'') (now backend_down)])))
       wake_unauthorized =
     (C_done (Responded (stream_head [chat_chunk (JStr ''llama2'') (now backend_down)])), [])"
proof -
  have h: "settled (checkOllamaHealth c0) (backend backend_down) = Inr False"
    by (simp add: c0_replies)
  have b: "body chat_llama2 \<noteq> None \<and> body chat_llama2 \<noteq> Some JNull \<and>
      \<not> includes_str (path chat_llama2) ''/generate'' \<and>
      includes_str (path chat_llama2) ''/chat''"
    by (simp add: chat_llama2_def)
  have m: "model_or_unknown (body chat_llama2) = Inr (JStr ''llama2'')"
    by (simp add: chat_llama2_def model_or_unknown_def)
  have s: "isStreaming (body chat_llama2)"
    by (simp add: chat_llama2_def isStreaming_def)
  from chatMiddleware_stub_when_down [OF h, of chat_llama2] obtain res where
    st: "chatMiddleware c0 chat_llama2 C_health backend_down =
           (C_background (Responded res), [Http (issued (wakeComputer c0))])"
    and bg: "\<forall>w'. chatMiddleware c0 chat_llama2 (C_background (Responded res)) w' =
           (C_done (Responded res), [])"
    and ch: "body chat_llama2 \<noteq> None \<and> body chat_llama2 \<noteq> Some JNull \<and>
      \<not> includes_str (path chat_llama2) ''/generate'' \<and>
      includes_str (path chat_llama2) ''/chat'' \<longrightarrow>
        (\<exists>model. model_or_unknown (body chat_llama2) = Inr model \<and> statusCode res = 200 \<and>
           payload res = (if isStreaming (body chat_llama2)
                          then Chunks [chat_chunk model (now backend_down)]
                          else Json (chat_body model (now backend_down))))"
    by blast
  from st h have "res = stream_head [chat_chunk (JStr ''llama2'') (now backend_down)]"
    by (simp add: stub_response_def Let_def s m b)
  with st bg h b show ?thesis
    by simp
qed

text \<open>
  Claim C7, at its failing input. With the backend down, a request that asks for
  streaming and whose path holds neither \<^verbatim>\<open>/generate\<close> nor \<^verbatim>\<open>/chat\<close> gets status
  200, the headers of a stream and no line at all: no envelope of any kind is written.
  The same request without streaming does get the generic envelope, with status 503.
\<close>

theorem chatMiddleware_streaming_other_endpoint_empty:
  "response_of (fst (chatMiddleware c0
      (embeddings (JObj [(''model'', JStr ''llama2''), (''stream'', JBool True)]))
      C_health backend_down))
     = Some \<lparr> statusCode = 200,
              res_headers = [(''Content-Type'', ''application/x-ndjson''),
                             (''Cache-Control'', ''no-cache''),
                             (''Connection'', ''keep-alive'')],
              payload = Chunks [] \<rparr> \<and>
   response_of (fst (chatMiddleware c0
      (embeddings (JObj [(''model'', JStr ''llama2''), (''stream'', JBool False)]))
      C_health backend_down))
     = Some (res_json 503 (waking_up_body (now backend_down)))"
  by (simp add: c0_replies embeddings_def stub_response_def Let_def isStreaming_def
      stream_head_def)

text \<open>
  Claim C10. With the backend down, the answer is a stream exactly when the handler's
  streaming test holds, and that test holds exactly when the body is an object whose
  member \<^verbatim>\<open>stream\<close> is the boolean \<open>True\<close>. Every other request is answered
  through \<^verbatim>\<open>res.json\<close>.
\<close>

theorem chatMiddleware_streaming_only_if_true:
  assumes "settled (checkOllamaHealth c) (backend w) = Inr False"
  shows "(isStreaming (body req) \<longleftrightarrow>
            (\<exists>kvs. body req = Some (JObj kvs) \<and> map_of kvs ''stream'' = Some (JBool True))) \<and>
         (\<exists>res. response_of (fst (chatMiddleware c req C_health w)) = Some res \<and>
            ((\<exists>lines. payload res = Chunks lines) \<longleftrightarrow> isStreaming (body req)))"
proof -
  have m: "isStreaming (body req) \<longrightarrow> (\<exists>m. model_or_unknown (body req) = Inr m)"
    using isStreaming_model by blast
  have "\<exists>res. response_of (fst (chatMiddleware c req C_health w)) = Some res \<and>
            ((\<exists>lines. payload res = Chunks lines) \<longleftrightarrow> isStreaming (body req))"
    using assms m
    by (auto simp add: stub_response_def Let_def stream_head_def res_json_def
        error_response_def split: sum.split)
  then show ?thesis
    using isStreaming_iff by blast
qed

theorem chatMiddleware_streaming_only_if_true_witness:
  "settled (checkOllamaHealth c0) (backend backend_down) = Inr False \<and>
   isStreaming (body chat_llama2) \<and>
   \<not> isStreaming (Some (JObj [(''model'', JStr ''llama2''), (''stream'', JStr ''true'')])) \<and>
   \<not> isStreaming (Some (JObj [(''model'', JStr ''llama2'')])) \<and>
   \<not> isStreaming None \<and>
   (\<exists>res. response_of (fst (chatMiddleware c0 chat_llama2 C_health backend_down)) = Some res \<and>
      (\<exists>lines. payload res = Chunks lines))"
proof -
  have h: "settled (checkOllamaHealth c0) (backend backend_down) = Inr False"
    by (simp add: c0_replies)
  have s: "isStreaming (body chat_llama2)"
    by (simp add: chat_llama2_def isStreaming_def)
  have n: "\<not> isStreaming (Some (JObj [(''model'', JStr ''llama2''), (''stream'', JStr ''true'')]))
      \<and> \<not> isStreaming (Some (JObj [(''model'', JStr ''llama2'')])) \<and> \<not> isStreaming None"
    by (simp add: isStreaming_def)
  from h s n chatMiddleware_streaming_only_if_true [OF h, of chat_llama2]
  show ?thesis
    by simp
qed

subsection \<open>Two chat requests at once\<close>

lemma stub_response_chat_llama2:
  "stub_response chat_llama2 created = Inr (stream_head [chat_chunk (JStr ''llama2'') created])"
  by (simp add: stub_response_def chat_llama2_def Let_def isStreaming_def model_or_unknown_def)

lemma chat_llama2_step:
  assumes "settled (checkOllamaHealth c) (backend w) = Inr False"
    and "chat_ok pc"
    and "chatMiddleware c chat_llama2 pc w = (pc', effs)"
  shows "chat_ok pc' \<and> fired pc + wake_calls effs = fired pc' \<and>
         progress pc' = min 2 (Suc (progress pc))"
proof (cases pc)
  case C_called
  with assms(3) show ?thesis
    by (auto simp add: chat_ok_def fired_def wake_calls_def)
next
  case C_health
  with assms(1,3) show ?thesis
    by (auto simp add: chat_ok_def fired_def wake_calls_def stub_response_chat_llama2
        chat_stub_def)
next
  case (C_background out)
  with assms(2,3) show ?thesis
    by (auto simp add: chat_ok_def fired_def wake_calls_def split: sum.splits)
next
  case (C_done out)
  with assms(2,3) show ?thesis
    by (auto simp add: chat_ok_def fired_def wake_calls_def)
qed

lemma two_chats_inv_step:
  assumes "settled (checkOllamaHealth c) (backend (snd e)) = Inr False"
    and "two_chats_inv c n k0 k1 s"
  shows "two_chats_inv c n (k0 + (if fst e = 0 then 1 else 0))
           (k1 + (if fst e = 1 then 1 else 0)) (step e s)"
proof -
  obtain i w where e: "e = (i, w)"
    by (cases e)
  from assms(2) obtain p0 p1 where
    t: "tasks s = [Chat chat_llama2 p0, Chat chat_llama2 p1]"
    and ok: "chat_ok p0" "chat_ok p1"
    and pr: "progress p0 = min 2 k0" "progress p1 = min 2 k1"
    and n: "wake_calls (trace s) = n + fired p0 + fired p1"
    and c: "checker s = c"
    by (auto simp add: two_chats_inv_def)
  from assms(1) e have down: "settled (checkOllamaHealth c) (backend w) = Inr False"
    by simp
  consider "i = 0" | "i = 1" | "i \<ge> 2"
    by linarith
  then show ?thesis
  proof cases
    case 1
    obtain p' effs where st: "chatMiddleware c chat_llama2 p0 w = (p', effs)"
      by (cases "chatMiddleware c chat_llama2 p0 w")
    from chat_llama2_step [OF down ok(1) st]
    have "chat_ok p'" "fired p0 + wake_calls effs = fired p'"
      "progress p' = min 2 (Suc (progress p0))"
      by simp_all
    with 1 e t ok pr n c st show ?thesis
      by (simp add: two_chats_inv_def wake_calls_append)
  next
    case 2
    obtain p' effs where st: "chatMiddleware c chat_llama2 p1 w = (p', effs)"
      by (cases "chatMiddleware c chat_llama2 p1 w")
    from chat_llama2_step [OF down ok(2) st]
    have "chat_ok p'" "fired p1 + wake_calls effs = fired p'"
      "progress p' = min 2 (Suc (progress p1))"
      by simp_all
    with 2 e t ok pr n c st show ?thesis
      by (simp add: two_chats_inv_def wake_calls_append)
  next
    case 3
    with e t assms(2) show ?thesis
      by simp
  qed
qed

lemma two_chats_inv_run:
  assumes "\<forall>e\<in>set es. settled (checkOllamaHealth c) (backend (snd e)) = Inr False"
    and "two_chats_inv c n k0 k1 s"
  shows "two_chats_inv c n (k0 + count_list (map fst es) 0)
           (k1 + count_list (map fst es) 1) (run es s)"
  using assms
proof (induction es arbitrary: s k0 k1)
  case Nil
  then show ?case
    by simp
next
  case (Cons e es)
  from Cons.prems have
    "two_chats_inv c n (k0 + (if fst e = 0 then 1 else 0))
       (k1 + (if fst e = 1 then 1 else 0)) (step e s)"
    by (intro two_chats_inv_step) simp_all
  with Cons.prems(1) have
    "two_chats_inv c n
       (k0 + (if fst e = 0 then 1 else 0) + count_list (map fst es) 0)
       (k1 + (if fst e = 1 then 1 else 0) + count_list (map fst es) 1)
       (run es (step e s))"
    by (intro Cons.IH) simp_all
  then show ?case
    by (cases "fst e = 0"; cases "fst e = 1") (simp_all add: add.assoc)
qed

text \<open>
  Claim C8. Two chat requests for model \<^verbatim>\<open>llama2\<close> that ask for streaming are in
  the handler together while the backend is down, their steps interleaved in any
  order. As soon as each has had two steps of its own (the call, and the probe
  settling), both are answered, and each answer is status 200 with the headers of a
  stream and exactly one line: the model, a timestamp, a message with role
  \<^verbatim>\<open>assistant\<close> and the waking-up message as content (it is not empty), and
  \<^verbatim>\<open>done\<close> true. Two wake calls have been fired, one by each request, and the
  checker, \<^verbatim>\<open>isWaking\<close> included, is as it was before, whatever it was.
\<close>

theorem chatMiddleware_two_simultaneous_chats:
  assumes "\<forall>e\<in>set es. settled (checkOllamaHealth c) (backend (snd e)) = Inr False"
    and "s = run es \<lparr> checker = c,
                       tasks = [Chat chat_llama2 C_called, Chat chat_llama2 C_called],
                       trace = tr \<rparr>"
    and "2 \<le> count_list (map fst es) 0"
    and "2 \<le> count_list (map fst es) 1"
  shows "(\<exists>t0 t1. answers s =
            [Some (Responded
               \<lparr> statusCode = 200,
                 res_headers = [(''Content-Type'', ''application/x-ndjson''),
                                (''Cache-Control'', ''no-cache''),
                                (''Connection'', ''keep-alive'')],
                 payload = Chunks
                   [JObj [(''model'', JStr ''llama2''),
                          (''created_at'', JStr t0),
                          (''message'', JObj [(''role'', JStr ''assistant''),
                                              (''content'', JStr waking_message)]),
                          (''done'', JBool True)]] \<rparr>),
             Some (Responded
               \<lparr> statusCode = 200,
                 res_headers = [(''Content-Type'', ''application/x-ndjson''),
                                (''Cache-Control'', ''no-cache''),
                                (''Connection'', ''keep-alive'')],
                 payload = Chunks
                   [JObj [(''model'', JStr ''llama2''),
                          (''created_at'', JStr t1),
                          (''message'', JObj [(''role'', JStr ''assistant''),
                                              (''content'', JStr waking_message)]),
                          (''done'', JBool True)]] \<rparr>)]) \<and>
         waking_message \<noteq> [] \<and>
         wake_calls (trace s) = wake_calls tr + 2 \<and>
         checker s = c"
proof -
  have "two_chats_inv c (wake_calls tr) 0 0
          \<lparr> checker = c, tasks = [Chat chat_llama2 C_called, Chat chat_llama2 C_called],
            trace = tr \<rparr>"
    by (simp add: two_chats_inv_def chat_ok_def fired_def)
  with assms(1,2) have
    "two_chats_inv c (wake_calls tr) (0 + count_list (map fst es) 0)
       (0 + count_list (map fst es) 1) s"
    by (simp only: two_chats_inv_run)
  then obtain p0 p1 where
    t: "tasks s = [Chat chat_llama2 p0, Chat chat_llama2 p1]"
    and ok: "chat_ok p0" "chat_ok p1"
    and pr: "progress p0 = min 2 (count_list (map fst es) 0)"
      "progress p1 = min 2 (count_list (map fst es) 1)"
    and n: "wake_calls (trace s) = wake_calls tr + fired p0 + fired p1"
    and c: "checker s = c"
    by (auto simp add: two_chats_inv_def)
  from pr assms(3,4) have "progress p0 = 2" "progress p1 = 2"
    by simp_all
  then obtain o0 o1 where a: "answer p0 = Some o0" "answer p1 = Some o1"
    by (cases p0; cases p1) auto
  with ok obtain t0 t1 where "o0 = chat_stub t0" "o1 = chat_stub t1"
    by (auto simp add: chat_ok_def)
  with a t have "answers s = [Some (chat_stub t0), Some (chat_stub t1)]"
    by (simp add: answers_def)
  then have "\<exists>t0 t1. answers s =
            [Some (Responded
               \<lparr> statusCode = 200,
                 res_headers = [(''Content-Type'', ''application/x-ndjson''),
                                (''Cache-Control'', ''no-cache''),
                                (''Connection'', ''keep-alive'')],
                 payload = Chunks
                   [JObj [(''model'', JStr ''llama2''),
                          (''created_at'', JStr t0),
                          (''message'', JObj [(''role'', JStr ''assistant''),
                                              (''content'', JStr waking_message)]),
                          (''done'', JBool True)]] \<rparr>),
             Some (Responded
               \<lparr> statusCode = 200,
                 res_headers = [(''Content-Type'', ''application/x-ndjson''),
                                (''Cache-Control'', ''no-cache''),
                                (''Connection'', ''keep-alive'')],
                 payload = Chunks
                   [JObj [(''model'', JStr ''llama2''),
                          (''created_at'', JStr t1),
                          (''message'', JObj [(''role'', JStr ''assistant''),
                                              (''content'', JStr waking_message)]),
                          (''done'', JBool True)]] \<rparr>)]"
    by (simp add: chat_stub_def stream_head_def chat_chunk_def)
  moreover from a n have "wake_calls (trace s) = wake_calls tr + 2"
    by (simp add: fired_def)
  moreover have "waking_message \<noteq> []"
    by (simp add: waking_message_def)
  ultimately show ?thesis
    using c by blast
qed

theorem chatMiddleware_two_simultaneous_chats_witness:
  "settled (checkOllamaHealth c0) (backend backend_down) = Inr False \<and>
   2 \<le> count_list (map fst [(0::nat, backend_down), (1, backend_down), (1, backend_down),
                            (0, backend_down)]) 0 \<and>
   2 \<le> count_list (map fst [(0::nat, backend_down), (1, backend_down), (1, backend_down),
                            (0, backend_down)]) 1 \<and>
   None \<notin> set (answers
      (run [(0, backend_down), (1, backend_down), (1, backend_down), (0, backend_down)]
         \<lparr> checker = c0,
           tasks = [Chat chat_llama2 C_called, Chat chat_llama2 C_called],
           trace = [] \<rparr>)) \<and>
   wake_calls (trace
      (run [(0, backend_down), (1, backend_down), (1, backend_down), (0, backend_down)]
         \<lparr> checker = c0,
           tasks = [Chat chat_llama2 C_called, Chat chat_llama2 C_called],
           trace = [] \<rparr>)) = 2 \<and>
   checker
      (run [(0, backend_down), (1, backend_down), (1, backend_down), (0, backend_down)]
         \<lparr> checker = c0,
           tasks = [Chat chat_llama2 C_called, Chat chat_llama2 C_called],
           trace = [] \<rparr>) = c0"
proof -
  let ?es = "[(0::nat, backend_down), (1, backend_down), (1, backend_down), (0, backend_down)]"
  define s where
    "s = run ?es \<lparr> checker = c0,
                    tasks = [Chat chat_llama2 C_called, Chat chat_llama2 C_called],
                    trace = [] \<rparr>"
  have down: "\<forall>e\<in>set ?es. settled (checkOllamaHealth c0) (backend (snd e)) = Inr False"
    by (simp add: c0_replies)
  have k0: "2 \<le> count_list (map fst ?es) 0" and k1: "2 \<le> count_list (map fst ?es) 1"
    by simp_all
  have h: "settled (checkOllamaHealth c0) (backend backend_down) = Inr False"
    by (simp add: c0_replies)
  from chatMiddleware_two_simultaneous_chats [where tr = "[]", OF down s_def k0 k1]
  obtain o0 o1 where "answers s = [Some o0, Some o1]"
    and "wake_calls (trace s) = wake_calls [] + 2" and "checker s = c0"
    by blast
  then have "None \<notin> set (answers s) \<and> wake_calls (trace s) = 2 \<and> checker s = c0"
    by (simp add: wake_calls_def)
  with h k0 k1 show ?thesis
    unfolding s_def by blast
qed

end
